theory Spec2Isabelle
  imports Main "HOL-Library.Sublist"
begin

section \<open>Python values and strings\<close>

text \<open>
  The program is \<^verbatim>\<open>lg_tv_remote.py\<close>: a class \<^verbatim>\<open>LGTVRemote\<close> that wraps a
  device client, and a class \<^verbatim>\<open>TVRemoteGUI\<close> that calls it through \<^verbatim>\<open>run_async\<close>.
  A string is a list of code points below 256, one \<open>char\<close> for each: the Latin-1 range
  of Python's strings. On this range \<^verbatim>\<open>str.lower\<close> works letter by letter, and
  \<^verbatim>\<open>str.lower\<close> and \<^verbatim>\<open>str.strip\<close> are modelled on all of it.
\<close>

text \<open>An entry of the device's app list is a Python dict with string keys and values.\<close>

type_synonym app = "string \<rightharpoonup> string"

text \<open>\<^verbatim>\<open>d.get(key, default)\<close>\<close>

definition dict_get :: "app \<Rightarrow> string \<Rightarrow> string \<Rightarrow> string" where
  "dict_get d k dflt = (case d k of None \<Rightarrow> dflt | Some v \<Rightarrow> v)"

text \<open>The values a coroutine of \<^verbatim>\<open>LGTVRemote\<close> returns, and what \<^verbatim>\<open>run_async\<close> hands on.\<close>

datatype pyval = VNone | VBool bool | VApps "app list"

text \<open>Truth value testing, as in \<^verbatim>\<open>if apps:\<close> and \<^verbatim>\<open>if success:\<close>.\<close>

fun truthy :: "pyval \<Rightarrow> bool" where
  "truthy VNone = False"
| "truthy (VBool b) = b"
| "truthy (VApps xs) = (xs \<noteq> [])"

text \<open>
  \<^verbatim>\<open>s.lower()\<close>: the upper-case letters below 256 are \<^verbatim>\<open>A\<close> to \<^verbatim>\<open>Z\<close> (65 to 90)
  and the accented capitals 192 to 222 without the multiplication sign 215; the
  lower-case letter of each is 32 places further on.
\<close>

definition is_upper :: "nat \<Rightarrow> bool" where
  "is_upper n \<longleftrightarrow> (65 \<le> n \<and> n \<le> 90) \<or> (192 \<le> n \<and> n \<le> 214) \<or> (216 \<le> n \<and> n \<le> 222)"

definition lower_char :: "char \<Rightarrow> char" where
  "lower_char c = (let n = (of_char c :: nat) in if is_upper n then char_of (n + 32) else c)"

definition lower :: "string \<Rightarrow> string" where
  "lower s = map lower_char s"

text \<open>\<^verbatim>\<open>a in b\<close> on strings: \<open>a\<close> occurs in \<open>b\<close> as a contiguous block.\<close>

fun py_in :: "string \<Rightarrow> string \<Rightarrow> bool" where
  "py_in a [] = (a = [])"
| "py_in a (c # cs) = (prefix a (c # cs) \<or> py_in a cs)"

text \<open>
  \<^verbatim>\<open>s.strip()\<close>: white space is removed at both ends. Below 256 the white space of
  \<^verbatim>\<open>str.isspace\<close> is 9 to 13, 28 to 32, the next-line control 133 and the no-break
  space 160.
\<close>

definition is_space :: "char \<Rightarrow> bool" where
  "is_space c =
     (let n = (of_char c :: nat)
      in (9 \<le> n \<and> n \<le> 13) \<or> (28 \<le> n \<and> n \<le> 32) \<or> n = 133 \<or> n = 160)"

definition strip :: "string \<Rightarrow> string" where
  "strip s = rev (dropWhile is_space (rev (dropWhile is_space s)))"

text \<open>\<^verbatim>\<open>str(n)\<close> for the natural number \<^verbatim>\<open>len(apps)\<close>.\<close>

fun str_nat :: "nat \<Rightarrow> string" where
  "str_nat n =
     (if n < 10 then [char_of (48 + n)] else str_nat (n div 10) @ [char_of (48 + n mod 10)])"

declare str_nat.simps [simp del]

section \<open>The device client\<close>

text \<open>
  \<^verbatim>\<open>WebOsClient\<close> comes from the package \<^verbatim>\<open>aiowebostv\<close>, which is not part of the
  repository. It is a parameter of the model: a \<open>device\<close> says, for the requests and
  pauses so far and the request made now, whether the awaited call returns, raises an
  exception (with its message), or does not answer within the ten seconds that
  \<^verbatim>\<open>run_async\<close> waits. Every request that reaches the client is appended to the log.
  A coroutine whose request is not answered stays suspended at that request: an answer
  that arrives after the wait has ended is not modelled. The exceptions are those of the
  class \<^verbatim>\<open>Exception\<close>, as the errors of the client are.
\<close>

datatype request =
    Connect string "string option"
  | Disconnect
  | VolumeUp
  | VolumeDown
  | GetMuted
  | SetMute bool
  | PowerOff
  | LaunchApp string
  | Button string
  | GetApps

datatype event = Dev request | Sleep nat

datatype 'a reply = Reply 'a | Raises string | NoReply

record device =
  on_connect :: "event list \<Rightarrow> string \<Rightarrow> string option \<Rightarrow> string option reply"
  on_get_muted :: "event list \<Rightarrow> bool reply"
  on_get_apps :: "event list \<Rightarrow> app list reply"
  on_command :: "event list \<Rightarrow> request \<Rightarrow> unit reply"

text \<open>The client object: \<^verbatim>\<open>WebOsClient(ip_address, client_key=client_key)\<close>.\<close>

record WebOsClient =
  wc_host :: string
  wc_client_key :: "string option"

section \<open>LGTVRemote\<close>

record LGTVRemote =
  client :: "WebOsClient option"
  connected :: bool
  tv_ip :: string
  client_key :: "string option"

text \<open>\<^verbatim>\<open>LGTVRemote.__init__\<close>\<close>

definition LGTVRemote_init :: LGTVRemote where
  "LGTVRemote_init = \<lparr>client = None, connected = False, tv_ip = [], client_key = None\<rparr>"

text \<open>What a coroutine works on: the remote object and the log of the device.\<close>

record world =
  remote :: LGTVRemote
  events :: "event list"

text \<open>
  How a coroutine ends, seen from the thread that waits for it: it returned a value, it
  raised an exception of the class \<^verbatim>\<open>Exception\<close>, or it was still waiting for the
  device when the wait ended. \<open>Aborted\<close> is a coroutine that raises \<^verbatim>\<open>SystemExit\<close>
  or \<^verbatim>\<open>KeyboardInterrupt\<close>, which are outside that class. No method of
  \<^verbatim>\<open>LGTVRemote\<close> ends this way on the replies of a device; it is an outcome of the
  coroutines that \<^verbatim>\<open>run_async\<close> can be given.
\<close>

datatype outcome = Returned pyval | Raised string | Pending | Aborted string

type_synonym coroutine = "world \<Rightarrow> outcome \<times> world"

definition emit :: "request \<Rightarrow> world \<Rightarrow> world" where
  "emit rq w = w\<lparr>events := events w @ [Dev rq]\<rparr>"

text \<open>
  \<^verbatim>\<open>await self.client.m(...)\<close> as the last statement of a method that returns nothing.
\<close>

definition command :: "device \<Rightarrow> request \<Rightarrow> coroutine" where
  "command dev rq w =
     (case on_command dev (events w) rq of
        Reply u \<Rightarrow> (Returned VNone, emit rq w)
      | Raises e \<Rightarrow> (Raised e, emit rq w)
      | NoReply \<Rightarrow> (Pending, emit rq w))"

text \<open>
  \<^verbatim>\<open>connect_to_tv\<close>: the new client is stored before the connection is awaited; the
  \<^verbatim>\<open>except Exception\<close> branch prints and returns \<^verbatim>\<open>False\<close>. The constructor
  only stores its arguments; a successful \<^verbatim>\<open>connect\<close> leaves the pairing key that
  the device answered in the client.
\<close>

definition connect_to_tv :: "device \<Rightarrow> string \<Rightarrow> string option \<Rightarrow> coroutine" where
  "connect_to_tv dev ip_address ck w =
     (let r1 = (remote w)\<lparr>client := Some \<lparr>wc_host = ip_address, wc_client_key = ck\<rparr>\<rparr>;
          w1 = emit (Connect ip_address ck) (w\<lparr>remote := r1\<rparr>)
      in case on_connect dev (events w) ip_address ck of
           Reply k \<Rightarrow>
             (Returned (VBool True),
              w1\<lparr>remote := r1\<lparr>client := Some \<lparr>wc_host = ip_address, wc_client_key = k\<rparr>,
                               connected := True, tv_ip := ip_address, client_key := k\<rparr>\<rparr>)
         | Raises e \<Rightarrow> (Returned (VBool False), w1)
         | NoReply \<Rightarrow> (Pending, w1))"

definition get_client_key :: "LGTVRemote \<Rightarrow> string option" where
  "get_client_key r = client_key r"

definition disconnect :: "device \<Rightarrow> coroutine" where
  "disconnect dev w =
     (case client (remote w) of
        None \<Rightarrow> (Returned VNone, w)
      | Some c \<Rightarrow>
          (case command dev Disconnect w of
             (Returned v, w1) \<Rightarrow> (Returned VNone, w1\<lparr>remote := (remote w1)\<lparr>connected := False\<rparr>\<rparr>)
           | (out, w1) \<Rightarrow> (out, w1)))"

text \<open>The guard \<^verbatim>\<open>if self.client:\<close> around one awaited call.\<close>

definition guarded :: "device \<Rightarrow> request \<Rightarrow> coroutine" where
  "guarded dev rq w =
     (case client (remote w) of None \<Rightarrow> (Returned VNone, w) | Some c \<Rightarrow> command dev rq w)"

definition volume_up :: "device \<Rightarrow> coroutine" where
  "volume_up dev = guarded dev VolumeUp"

definition volume_down :: "device \<Rightarrow> coroutine" where
  "volume_down dev = guarded dev VolumeDown"

text \<open>\<^verbatim>\<open>await self.client.set_mute(not await self.client.get_muted())\<close>\<close>

definition mute_toggle :: "device \<Rightarrow> coroutine" where
  "mute_toggle dev w =
     (case client (remote w) of
        None \<Rightarrow> (Returned VNone, w)
      | Some c \<Rightarrow>
          (case on_get_muted dev (events w) of
             Reply m \<Rightarrow> command dev (SetMute (\<not> m)) (emit GetMuted w)
           | Raises e \<Rightarrow> (Raised e, emit GetMuted w)
           | NoReply \<Rightarrow> (Pending, emit GetMuted w)))"

definition power_off :: "device \<Rightarrow> coroutine" where
  "power_off dev = guarded dev PowerOff"

definition launch_app :: "device \<Rightarrow> string \<Rightarrow> coroutine" where
  "launch_app dev app_id = guarded dev (LaunchApp app_id)"

definition nav_up :: "device \<Rightarrow> coroutine" where
  "nav_up dev = guarded dev (Button ''UP'')"

definition nav_down :: "device \<Rightarrow> coroutine" where
  "nav_down dev = guarded dev (Button ''DOWN'')"

definition nav_left :: "device \<Rightarrow> coroutine" where
  "nav_left dev = guarded dev (Button ''LEFT'')"

definition nav_right :: "device \<Rightarrow> coroutine" where
  "nav_right dev = guarded dev (Button ''RIGHT'')"

definition nav_ok :: "device \<Rightarrow> coroutine" where
  "nav_ok dev = guarded dev (Button ''ENTER'')"

definition nav_home :: "device \<Rightarrow> coroutine" where
  "nav_home dev = guarded dev (Button ''HOME'')"

definition nav_back :: "device \<Rightarrow> coroutine" where
  "nav_back dev = guarded dev (Button ''BACK'')"

definition media_play :: "device \<Rightarrow> coroutine" where
  "media_play dev = guarded dev (Button ''PLAY'')"

definition media_pause :: "device \<Rightarrow> coroutine" where
  "media_pause dev = guarded dev (Button ''PAUSE'')"

definition media_stop :: "device \<Rightarrow> coroutine" where
  "media_stop dev = guarded dev (Button ''STOP'')"

definition media_rewind :: "device \<Rightarrow> coroutine" where
  "media_rewind dev = guarded dev (Button ''REWIND'')"

definition media_fastforward :: "device \<Rightarrow> coroutine" where
  "media_fastforward dev = guarded dev (Button ''FASTFORWARD'')"

text \<open>\<^verbatim>\<open>get_apps\<close> returns the device's list, and \<^verbatim>\<open>[]\<close> when there is no client.\<close>

definition get_apps :: "device \<Rightarrow> coroutine" where
  "get_apps dev w =
     (case client (remote w) of
        None \<Rightarrow> (Returned (VApps []), w)
      | Some c \<Rightarrow>
          (case on_get_apps dev (events w) of
             Reply apps \<Rightarrow> (Returned (VApps apps), emit GetApps w)
           | Raises e \<Rightarrow> (Raised e, emit GetApps w)
           | NoReply \<Rightarrow> (Pending, emit GetApps w)))"

text \<open>
  The device operations of the session, one constructor for each method of
  \<^verbatim>\<open>LGTVRemote\<close> that a button of the front end runs, and the coroutine each one names.
\<close>

datatype operation =
    OpVolumeUp | OpVolumeDown | OpMuteToggle | OpPowerOff | OpLaunchApp string
  | OpNavUp | OpNavDown | OpNavLeft | OpNavRight | OpNavOk | OpNavHome | OpNavBack
  | OpMediaPlay | OpMediaPause | OpMediaStop | OpMediaRewind | OpMediaFastforward
  | OpGetApps

fun perform :: "device \<Rightarrow> operation \<Rightarrow> coroutine" where
  "perform dev OpVolumeUp = volume_up dev"
| "perform dev OpVolumeDown = volume_down dev"
| "perform dev OpMuteToggle = mute_toggle dev"
| "perform dev OpPowerOff = power_off dev"
| "perform dev (OpLaunchApp app_id) = launch_app dev app_id"
| "perform dev OpNavUp = nav_up dev"
| "perform dev OpNavDown = nav_down dev"
| "perform dev OpNavLeft = nav_left dev"
| "perform dev OpNavRight = nav_right dev"
| "perform dev OpNavOk = nav_ok dev"
| "perform dev OpNavHome = nav_home dev"
| "perform dev OpNavBack = nav_back dev"
| "perform dev OpMediaPlay = media_play dev"
| "perform dev OpMediaPause = media_pause dev"
| "perform dev OpMediaStop = media_stop dev"
| "perform dev OpMediaRewind = media_rewind dev"
| "perform dev OpMediaFastforward = media_fastforward dev"
| "perform dev OpGetApps = get_apps dev"

text \<open>What an operation returns when it did nothing.\<close>

fun idle_result :: "operation \<Rightarrow> pyval" where
  "idle_result OpGetApps = VApps []"
| "idle_result x = VNone"

section \<open>TVRemoteGUI\<close>

text \<open>
  The front end keeps the widgets' contents, the key read from the configuration file, and
  the event loop of the worker thread. The configuration file is part of the state:
  \<open>None\<close> is a file that is missing or cannot be parsed. Every handler starts a thread of
  its own in the source; the model runs one handler at a time, to its end.

  \<^verbatim>\<open>self.loop\<close> is \<^verbatim>\<open>None\<close> until the worker thread has created the loop. The
  loop object is \<open>Running\<close> while the worker is inside \<^verbatim>\<open>run_forever\<close>, and
  \<open>Stopped\<close> once \<^verbatim>\<open>run_forever\<close> has returned or was left by an exception; the
  attribute keeps the object then.
\<close>

datatype event_loop = Running | Stopped

record config =
  cfg_tv_ip :: "string option"
  cfg_client_key :: "string option"

record TVRemoteGUI =
  self_loop :: "event_loop option"
  config_file :: "config option"
  saved_client_key :: "string option"
  ip_entry :: string
  connect_btn :: bool
  status_label :: string
  status_bar :: string
  apps_listbox :: "string list"
  dialogs :: "string list"

type_synonym gui_state = "TVRemoteGUI \<times> world"

text \<open>\<^verbatim>\<open>setup_gui\<close>, as far as the state goes: what the widgets show at the start.\<close>

definition setup_gui :: "config option \<Rightarrow> TVRemoteGUI" where
  "setup_gui disk =
     \<lparr>self_loop = None, config_file = disk, saved_client_key = None, ip_entry = [],
      connect_btn = True, status_label = ''Not Connected'', status_bar = ''Ready'',
      apps_listbox = [], dialogs = []\<rparr>"

text \<open>
  \<^verbatim>\<open>start_async_loop\<close>: the worker thread creates the loop and runs it forever; the
  caller sleeps a tenth of a second, after which the loop is taken to exist.
\<close>

definition start_async_loop :: "TVRemoteGUI \<Rightarrow> TVRemoteGUI" where
  "start_async_loop g = g\<lparr>self_loop := Some Running\<rparr>"

text \<open>The worker is at work: the loop is there and \<^verbatim>\<open>run_forever\<close> is running it.\<close>

definition loop :: "TVRemoteGUI \<Rightarrow> bool" where
  "loop g \<longleftrightarrow> self_loop g = Some Running"

definition update_status :: "string \<Rightarrow> TVRemoteGUI \<Rightarrow> TVRemoteGUI" where
  "update_status message g = g\<lparr>status_bar := message\<rparr>"

text \<open>
  \<^verbatim>\<open>run_async\<close>: without a loop nothing is scheduled and the method returns
  \<^verbatim>\<open>None\<close>. Otherwise the coroutine runs on the worker, and
  \<^verbatim>\<open>future.result(timeout=10)\<close> returns its value, raises its exception, or raises
  \<^verbatim>\<open>TimeoutError()\<close>, whose text is empty; \<^verbatim>\<open>except Exception\<close> takes both.

  What the loop does with the coroutine is the behaviour of \<^verbatim>\<open>asyncio\<close>. An
  exception of the class \<^verbatim>\<open>Exception\<close> is kept in the future of the coroutine, and
  the loop goes on. \<^verbatim>\<open>SystemExit\<close> and \<^verbatim>\<open>KeyboardInterrupt\<close> are raised again by
  the task and leave \<^verbatim>\<open>run_forever\<close>: the worker thread ends before the result
  reaches the future, and the caller's wait runs out. On a loop that has stopped the
  coroutine is queued and never run, and the wait runs out as well.
\<close>

definition run_async :: "coroutine \<Rightarrow> gui_state \<Rightarrow> pyval \<times> gui_state" where
  "run_async coro gw =
     (case gw of (g, w) \<Rightarrow>
        (case self_loop g of
           None \<Rightarrow> (VNone, g, w)
         | Some Stopped \<Rightarrow> (VNone, update_status (''Error: '' @ []) g, w)
         | Some Running \<Rightarrow>
             (case coro w of
                (Returned v, w1) \<Rightarrow> (v, g, w1)
              | (Raised e, w1) \<Rightarrow> (VNone, update_status (''Error: '' @ e) g, w1)
              | (Pending, w1) \<Rightarrow> (VNone, update_status (''Error: '' @ []) g, w1)
              | (Aborted e, w1) \<Rightarrow>
                  (VNone, update_status (''Error: '' @ []) (g\<lparr>self_loop := Some Stopped\<rparr>), w1))))"

text \<open>
  \<^verbatim>\<open>run\<close>: the main loop of the window runs the handlers of the user's clicks, one
  after the other; at its end the loop of the worker, when there is one, is asked to stop.
\<close>

definition run :: "(gui_state \<Rightarrow> gui_state) list \<Rightarrow> gui_state \<Rightarrow> gui_state" where
  "run handlers gw =
     (case fold (\<lambda>handler s. handler s) handlers gw of
        (g, w) \<Rightarrow>
          (case self_loop g of
             None \<Rightarrow> (g, w)
           | Some l \<Rightarrow> (g\<lparr>self_loop := Some Stopped\<rparr>, w)))"


text \<open>
  \<^verbatim>\<open>save_config\<close> overwrites the file with the address shown and the remote's key.
  The file can be written; the source ignores a failure to write it.
\<close>

definition save_config :: "gui_state \<Rightarrow> gui_state" where
  "save_config gw =
     (case gw of (g, w) \<Rightarrow>
        (g\<lparr>config_file :=
             Some \<lparr>cfg_tv_ip = Some (ip_entry g), cfg_client_key = get_client_key (remote w)\<rparr>\<rparr>,
         w))"

definition load_config :: "TVRemoteGUI \<Rightarrow> TVRemoteGUI" where
  "load_config g =
     (case config_file g of
        Some config \<Rightarrow>
          g\<lparr>ip_entry :=
               (case cfg_tv_ip config of None \<Rightarrow> ''192.168.1.100'' | Some a \<Rightarrow> a) @ ip_entry g,
            saved_client_key := cfg_client_key config\<rparr>
      | None \<Rightarrow> g\<lparr>ip_entry := ''192.168.1.100'' @ ip_entry g, saved_client_key := None\<rparr>)"

text \<open>\<^verbatim>\<open>TVRemoteGUI.__init__\<close>, with the remote it creates.\<close>

definition TVRemoteGUI_init :: "config option \<Rightarrow> gui_state" where
  "TVRemoteGUI_init disk =
     (start_async_loop (load_config (setup_gui disk)), \<lparr>remote = LGTVRemote_init, events = []\<rparr>)"

text \<open>
  Iterating over a value: \<^verbatim>\<open>for app in apps\<close> raises \<^verbatim>\<open>TypeError\<close> on a value that
  is not a list.
\<close>

definition not_iterable :: "string \<Rightarrow> string" where
  "not_iterable ty = [CHR 0x27] @ ty @ [CHR 0x27] @ '' object is not iterable''"

fun iter :: "pyval \<Rightarrow> string + app list" where
  "iter (VApps xs) = Inr xs"
| "iter (VBool b) = Inl (not_iterable ''bool'')"
| "iter VNone = Inl (not_iterable ''NoneType'')"

text \<open>
  \<^verbatim>\<open>refresh_apps\<close>: the list box is emptied and filled with the titles. An exception
  of the loop ends the thread after the list box was emptied.
\<close>

definition app_label :: "app \<Rightarrow> string" where
  "app_label a = dict_get a ''title'' (dict_get a ''id'' ''Unknown'')"

definition refresh_apps :: "device \<Rightarrow> gui_state \<Rightarrow> gui_state" where
  "refresh_apps dev gw =
     (case run_async (get_apps dev) gw of (apps, g1, w1) \<Rightarrow>
        if truthy apps then
          (case iter apps of
             Inr xs \<Rightarrow>
               (update_status (''Found '' @ str_nat (length xs) @ '' apps'')
                  (g1\<lparr>apps_listbox := map app_label xs\<rparr>), w1)
           | Inl e \<Rightarrow> (g1\<lparr>apps_listbox := []\<rparr>, w1))
        else (g1, w1))"

text \<open>
  \<^verbatim>\<open>connect_tv\<close>: the key given to \<^verbatim>\<open>connect_to_tv\<close> is
  \<^verbatim>\<open>self.saved_client_key\<close>, which only \<^verbatim>\<open>load_config\<close> assigns.
\<close>

definition connect_tv :: "device \<Rightarrow> gui_state \<Rightarrow> gui_state" where
  "connect_tv dev gw =
     (case gw of (g, w) \<Rightarrow>
        let ip = strip (ip_entry g) in
        if ip = [] then (g\<lparr>dialogs := dialogs g @ [''Please enter TV IP address'']\<rparr>, w)
        else
          (let g1 = (update_status ''Connecting...'' g)\<lparr>connect_btn := False\<rparr>;
               ck = saved_client_key g1
           in case run_async (connect_to_tv dev ip ck) (g1, w) of (success, g2, w2) \<Rightarrow>
                if truthy success then
                  (case refresh_apps dev
                          (save_config
                             (update_status ''Connected successfully''
                                (g2\<lparr>status_label := ''Connected to '' @ ip\<rparr>), w2)) of
                     (g3, w3) \<Rightarrow> (g3\<lparr>connect_btn := True\<rparr>, w3))
                else
                  ((update_status ''Connection failed''
                      (g2\<lparr>status_label := ''Connection Failed''\<rparr>))\<lparr>connect_btn := True\<rparr>, w2)))"

subsection \<open>Launching an app by its name\<close>

text \<open>The test of the loop over the app list.\<close>

definition name_matches :: "string \<Rightarrow> app \<Rightarrow> bool" where
  "name_matches app_name a =
     (let app_title = lower (dict_get a ''title'' [])
      in py_in (lower app_name) app_title \<or> py_in app_title (lower app_name))"

text \<open>
  The loop \<^verbatim>\<open>for app in apps\<close> of \<^verbatim>\<open>smart_launcher\<close>: \<open>Some\<close> is the state at its
  \<^verbatim>\<open>return\<close>, \<open>None\<close> says that the loop ran to its end.
\<close>

fun search_apps :: "device \<Rightarrow> string \<Rightarrow> app list \<Rightarrow> gui_state \<Rightarrow> gui_state option" where
  "search_apps dev app_name [] gw = None"
| "search_apps dev app_name (a # rest) gw =
     (let app_id = dict_get a ''id'' [] in
      if name_matches app_name a then
        (case run_async (launch_app dev app_id) gw of (v, g1, w1) \<Rightarrow>
           Some (update_status (''Found and launching '' @ app_name @ '': '' @ app_id) g1, w1))
      else search_apps dev app_name rest gw)"

definition fallback_ids :: "(string \<times> string list) list" where
  "fallback_ids =
     [(''Netflix'', [''netflix'']),
      (''YouTube'', [''youtube.leanback.v4'', ''youtube'']),
      (''Prime Video'', [''amazon'', ''primevideo'']),
      (''Disney+'', [''com.disney.disneyplus-prod'', ''disney'']),
      (''Hulu'', [''hulu'']),
      (''Apple TV'', [''com.apple.appletv'', ''appletv'']),
      (''HBO Max'', [''com.hbo.hbonow'', ''hbomax'', ''com.hbo.max'']),
      (''Peacock'', [''com.peacocktv.peacocktv'', ''peacock'', ''com.peacocktv'']),
      (''ESPN'', [''espn'', ''com.espn.webostv'', ''com.espn.app'']),
      (''Food Network'', [''com.scripts.foodnetwork'', ''foodnetwork'', ''com.foodnetwork'']),
      (''Paramount+'', [''com.cbs.app'', ''paramountplus'', ''com.paramount''])]"

text \<open>
  The loop over the fallback identifiers. Nothing in its \<^verbatim>\<open>try\<close> block raises, since
  \<^verbatim>\<open>run_async\<close> has caught the exception already, and the loop has no
  \<^verbatim>\<open>break\<close>. \<^verbatim>\<open>time.sleep(0.5)\<close> is logged as 500 milliseconds.
\<close>

fun try_fallbacks :: "device \<Rightarrow> string \<Rightarrow> string list \<Rightarrow> gui_state \<Rightarrow> gui_state" where
  "try_fallbacks dev app_name [] gw = gw"
| "try_fallbacks dev app_name (app_id # rest) gw =
     (case run_async (launch_app dev app_id) gw of (v, g1, w1) \<Rightarrow>
        try_fallbacks dev app_name rest
          (update_status (''Trying '' @ app_name @ '' with ID: '' @ app_id) g1,
           w1\<lparr>events := events w1 @ [Sleep 500]\<rparr>))"

text \<open>
  \<^verbatim>\<open>smart_launcher\<close>, the body of \<^verbatim>\<open>launch_app_smart\<close>. The outer
  \<^verbatim>\<open>except Exception\<close> reports an exception of the first loop in the status bar.
\<close>

definition launch_app_smart :: "device \<Rightarrow> string \<Rightarrow> gui_state \<Rightarrow> gui_state" where
  "launch_app_smart dev app_name gw =
     (case run_async (get_apps dev) gw of (apps, g1, w1) \<Rightarrow>
        let fallback =
              (case map_of fallback_ids app_name of
                 Some ids \<Rightarrow> try_fallbacks dev app_name ids (g1, w1)
               | None \<Rightarrow> (update_status (''Could not find '' @ app_name) g1, w1))
        in if truthy apps then
             (case iter apps of
                Inr xs \<Rightarrow>
                  (case search_apps dev app_name xs (g1, w1) of
                     Some found \<Rightarrow> found
                   | None \<Rightarrow> fallback)
              | Inl e \<Rightarrow> (update_status (''Error launching '' @ app_name @ '': '' @ e) g1, w1))
           else fallback)"

text \<open>\<^verbatim>\<open>launch_espn\<close>, with the loop of \<^verbatim>\<open>try_espn\<close>.\<close>

fun try_espn :: "device \<Rightarrow> string list \<Rightarrow> gui_state \<Rightarrow> gui_state" where
  "try_espn dev [] gw = gw"
| "try_espn dev (espn_id # rest) gw =
     (case run_async (launch_app dev espn_id) gw of (v, g1, w1) \<Rightarrow>
        try_espn dev rest
          (update_status (''Trying ESPN: '' @ espn_id) g1, w1\<lparr>events := events w1 @ [Sleep 500]\<rparr>))"

definition launch_espn :: "device \<Rightarrow> gui_state \<Rightarrow> gui_state" where
  "launch_espn dev gw = try_espn dev [''espn'', ''com.espn.webostv'', ''com.espn.app'', ''ESPN''] gw"

subsection \<open>The buttons\<close>

text \<open>A handler that runs one coroutine and then writes the status bar.\<close>

definition button_handler :: "coroutine \<Rightarrow> string \<Rightarrow> gui_state \<Rightarrow> gui_state" where
  "button_handler coro message gw =
     (case run_async coro gw of (v, g1, w1) \<Rightarrow> (update_status message g1, w1))"

definition gui_nav_up :: "device \<Rightarrow> gui_state \<Rightarrow> gui_state" where
  "gui_nav_up dev = button_handler (nav_up dev) ''Navigate up''"

definition gui_nav_down :: "device \<Rightarrow> gui_state \<Rightarrow> gui_state" where
  "gui_nav_down dev = button_handler (nav_down dev) ''Navigate down''"

definition gui_nav_left :: "device \<Rightarrow> gui_state \<Rightarrow> gui_state" where
  "gui_nav_left dev = button_handler (nav_left dev) ''Navigate left''"

definition gui_nav_right :: "device \<Rightarrow> gui_state \<Rightarrow> gui_state" where
  "gui_nav_right dev = button_handler (nav_right dev) ''Navigate right''"

definition gui_nav_ok :: "device \<Rightarrow> gui_state \<Rightarrow> gui_state" where
  "gui_nav_ok dev = button_handler (nav_ok dev) ''OK pressed''"

definition gui_nav_home :: "device \<Rightarrow> gui_state \<Rightarrow> gui_state" where
  "gui_nav_home dev = button_handler (nav_home dev) ''Home pressed''"

definition gui_nav_back :: "device \<Rightarrow> gui_state \<Rightarrow> gui_state" where
  "gui_nav_back dev = button_handler (nav_back dev) ''Back pressed''"


definition gui_volume_down :: "device \<Rightarrow> gui_state \<Rightarrow> gui_state" where
  "gui_volume_down dev = button_handler (volume_down dev) ''Volume down''"

definition gui_mute_toggle :: "device \<Rightarrow> gui_state \<Rightarrow> gui_state" where
  "gui_mute_toggle dev = button_handler (mute_toggle dev) ''Mute toggled''"

definition gui_media_play :: "device \<Rightarrow> gui_state \<Rightarrow> gui_state" where
  "gui_media_play dev = button_handler (media_play dev) ''Play''"

definition gui_media_pause :: "device \<Rightarrow> gui_state \<Rightarrow> gui_state" where
  "gui_media_pause dev = button_handler (media_pause dev) ''Pause''"

definition gui_media_stop :: "device \<Rightarrow> gui_state \<Rightarrow> gui_state" where
  "gui_media_stop dev = button_handler (media_stop dev) ''Stop''"

definition gui_media_rewind :: "device \<Rightarrow> gui_state \<Rightarrow> gui_state" where
  "gui_media_rewind dev = button_handler (media_rewind dev) ''Rewind''"

definition gui_media_fastforward :: "device \<Rightarrow> gui_state \<Rightarrow> gui_state" where
  "gui_media_fastforward dev = button_handler (media_fastforward dev) ''Fast Forward''"

text \<open>\<^verbatim>\<open>power_off\<close> of the front end asks first; \<open>yes\<close> is the user's answer.\<close>

definition gui_power_off :: "device \<Rightarrow> bool \<Rightarrow> gui_state \<Rightarrow> gui_state" where
  "gui_power_off dev yes gw =
     (if yes then button_handler (power_off dev) ''TV powered off'' gw else gw)"

subsection \<open>The double click on the app list\<close>

text \<open>
  The names an object of \<^verbatim>\<open>TVRemoteGUI\<close> has: the attributes that \<^verbatim>\<open>__init__\<close>,
  \<^verbatim>\<open>setup_gui\<close>, \<^verbatim>\<open>load_config\<close> and the worker assign, and the methods of the class.
\<close>

definition TVRemoteGUI_attributes :: "string list" where
  "TVRemoteGUI_attributes =
     [''remote'', ''loop'', ''config_file'', ''root'', ''ip_entry'', ''connect_btn'',
      ''status_label'', ''apps_listbox'', ''status_bar'', ''saved_client_key'']"

definition TVRemoteGUI_methods :: "string list" where
  "TVRemoteGUI_methods =
     [''__init__'', ''setup_gui'', ''start_async_loop'', ''run_async'', ''save_config'',
      ''load_config'', ''connect_tv'', ''launch_app_smart'', ''launch_espn'', ''update_status'',
      ''nav_up'', ''nav_down'', ''nav_left'', ''nav_right'', ''nav_ok'', ''nav_home'',
      ''nav_back'', ''volume_up'', ''volume_down'', ''mute_toggle'', ''media_play'',
      ''media_pause'', ''media_stop'', ''media_rewind'', ''media_fastforward'', ''power_off'',
      ''refresh_apps'', ''launch_selected_app'', ''run'']"

text \<open>
  \<^verbatim>\<open>self.name(arg)\<close> with one string argument. A name that the object does not have
  raises \<^verbatim>\<open>AttributeError\<close>. Of the names it has, \<^verbatim>\<open>launch_app_smart\<close> and
  \<^verbatim>\<open>update_status\<close> are the methods that take a string; calling another one this
  way is a \<^verbatim>\<open>TypeError\<close>.
\<close>

definition no_attribute :: "string \<Rightarrow> string" where
  "no_attribute name =
     [CHR 0x27] @ ''TVRemoteGUI'' @ [CHR 0x27] @ '' object has no attribute '' @
     [CHR 0x27] @ name @ [CHR 0x27]"

definition call_self :: "device \<Rightarrow> string \<Rightarrow> string \<Rightarrow> gui_state \<Rightarrow> outcome \<times> gui_state" where
  "call_self dev name arg gw =
     (if name \<notin> set (TVRemoteGUI_attributes @ TVRemoteGUI_methods)
        then (Raised (no_attribute name), gw)
      else if name = ''launch_app_smart'' then (Returned VNone, launch_app_smart dev arg gw)
      else if name = ''update_status'' then (Returned VNone, update_status arg (fst gw), snd gw)
      else (Raised ''TypeError'', gw))"

text \<open>
  \<^verbatim>\<open>launch_selected_app\<close>: \<open>selection\<close> is what \<^verbatim>\<open>curselection()\<close> returns, the
  indices of the selected lines; \<^verbatim>\<open>Listbox.get\<close> gives the empty string for an index
  that is not there.
\<close>

definition listbox_get :: "string list \<Rightarrow> nat \<Rightarrow> string" where
  "listbox_get items i = (if i < length items then items ! i else [])"

definition launch_selected_app :: "device \<Rightarrow> nat list \<Rightarrow> gui_state \<Rightarrow> outcome \<times> gui_state" where
  "launch_selected_app dev selection gw =
     (case selection of
        [] \<Rightarrow> (Returned VNone, gw)
      | i # others \<Rightarrow>
          (let app_name = listbox_get (apps_listbox (fst gw)) i
           in call_self dev ''launch_app'' (filter (\<lambda>c. c \<noteq> CHR '' '') (lower app_name)) gw))"

section \<open>What the specification says, and what is observed\<close>

text \<open>
  The specification's test of a catalog entry, in its words: the lower-cased requested
  name is a substring of the lower-cased title, or the other way round. \<open>sublist\<close> is
  the contiguous one: \<open>sublist a b\<close> holds when \<open>b = p @ a @ s\<close> for some \<open>p\<close> and \<open>s\<close>.
\<close>

definition spec_entry_matches :: "string \<Rightarrow> app \<Rightarrow> bool" where
  "spec_entry_matches requested entry \<longleftrightarrow>
     sublist (lower requested) (lower (dict_get entry ''title'' [])) \<or>
     sublist (lower (dict_get entry ''title'' [])) (lower requested)"

text \<open>The identifiers of the launch requests in a log, in the order they were made.\<close>

fun launches :: "event list \<Rightarrow> string list" where
  "launches [] = []"
| "launches (Dev (LaunchApp app_id) # evs) = app_id # launches evs"
| "launches (e # evs) = launches evs"

text \<open>
  A session whose \<^verbatim>\<open>connected\<close> flag is set has a client. The flag is set by
  \<^verbatim>\<open>connect_to_tv\<close> only, after it has stored the client.
\<close>

definition session_ok :: "world \<Rightarrow> bool" where
  "session_ok w \<longleftrightarrow> \<not> connected (remote w) \<or> client (remote w) \<noteq> None"

section \<open>Devices and states for the examples\<close>

text \<open>
  A device that gives the same answer whatever happened before: \<open>cr\<close> to a connection,
  \<open>r\<close> to every other request, with \<open>apps\<close> as its app list and the sound on.
\<close>

definition test_tv :: "string option reply \<Rightarrow> unit reply \<Rightarrow> app list \<Rightarrow> device" where
  "test_tv cr r apps =
     \<lparr>on_connect = (\<lambda>evs ip ck. cr),
      on_get_muted = (\<lambda>evs. map_reply (\<lambda>u. False) r),
      on_get_apps = (\<lambda>evs. map_reply (\<lambda>u. apps) r),
      on_command = (\<lambda>evs rq. r)\<rparr>"

text \<open>A device that accepts the first connection and cannot be reached afterwards.\<close>

definition flaky_tv :: device where
  "flaky_tv =
     \<lparr>on_connect = (\<lambda>evs ip ck. if evs = [] then Reply (Some ''KEY'') else Raises ''unreachable''),
      on_get_muted = (\<lambda>evs. Reply False),
      on_get_apps = (\<lambda>evs. Reply []),
      on_command = (\<lambda>evs rq. Reply ())\<rparr>"


text \<open>
  The world at the start, the front end after \<^verbatim>\<open>__init__\<close> without a configuration
  file, and the world after a first connection that the device accepted with the key
  \<^verbatim>\<open>KEY\<close>.
\<close>

definition fresh :: world where
  "fresh = \<lparr>remote = LGTVRemote_init, events = []\<rparr>"

definition ready :: TVRemoteGUI where
  "ready = fst (TVRemoteGUI_init None)"

definition paired :: world where
  "paired =
     snd (connect_to_tv (test_tv (Reply (Some ''KEY'')) (Reply ()) []) ''192.168.1.100'' None fresh)"

section \<open>Facts about the strings and the log\<close>

lemma py_in_sublist: "py_in a b \<longleftrightarrow> sublist a b"
  by (induction b) (simp_all add: sublist_Cons_right)

lemma name_matches_spec: "name_matches app_name a = spec_entry_matches app_name a"
  by (simp add: name_matches_def spec_entry_matches_def py_in_sublist Let_def)

lemma launches_append: "launches (xs @ ys) = launches xs @ launches ys"
  by (induction xs rule: launches.induct) simp_all

lemma launches_attempts:
  "launches (concat (map (\<lambda>app_id. [Dev (LaunchApp app_id), Sleep 500]) ids)) = ids"
  by (induction ids) simp_all

lemmas eval_defs =
  ready_def paired_def fresh_def test_tv_def flaky_tv_def TVRemoteGUI_init_def start_async_loop_def
  load_config_def setup_gui_def LGTVRemote_init_def connect_to_tv_def emit_def update_status_def
  run_async_def get_apps_def launch_app_def guarded_def command_def launch_app_smart_def
  fallback_ids_def spec_entry_matches_def dict_get_def lower_def lower_char_def char_of_def
  bit_Suc_0_iff Let_def loop_def is_upper_def

section \<open>The operations of LGTVRemote\<close>

lemma command_events: "events (snd (command dev rq w)) = events w @ [Dev rq]"
  by (simp add: command_def emit_def split: reply.splits)

lemma command_remote: "remote (snd (command dev rq w)) = remote w"
  by (simp add: command_def emit_def split: reply.splits)

lemma guarded_no_client: "client (remote w) = None \<Longrightarrow> guarded dev rq w = (Returned VNone, w)"
  by (simp add: guarded_def)

lemma guarded_client: "client (remote w) = Some c \<Longrightarrow> guarded dev rq w = command dev rq w"
  by (simp add: guarded_def)

lemma guarded_remote: "remote (snd (guarded dev rq w)) = remote w"
  by (simp add: guarded_def command_remote split: option.splits)

lemmas button_defs =
  volume_up_def volume_down_def power_off_def launch_app_def nav_up_def nav_down_def nav_left_def
  nav_right_def nav_ok_def nav_home_def nav_back_def media_play_def media_pause_def media_stop_def
  media_rewind_def media_fastforward_def

lemma mute_toggle_events:
  "client (remote w) = Some c \<Longrightarrow>
   events (snd (mute_toggle dev w)) =
     events w @ (case on_get_muted dev (events w) of
                   Reply m \<Rightarrow> [Dev GetMuted, Dev (SetMute (\<not> m))]
                 | Raises e \<Rightarrow> [Dev GetMuted]
                 | NoReply \<Rightarrow> [Dev GetMuted])"
  by (simp add: mute_toggle_def command_events emit_def split: reply.splits)

lemma mute_toggle_remote: "remote (snd (mute_toggle dev w)) = remote w"
  by (simp add: mute_toggle_def command_remote emit_def split: option.splits reply.splits)

lemma get_apps_events:
  "client (remote w) = Some c \<Longrightarrow> events (snd (get_apps dev w)) = events w @ [Dev GetApps]"
  by (simp add: get_apps_def emit_def split: reply.splits)

lemma get_apps_remote: "remote (snd (get_apps dev w)) = remote w"
  by (simp add: get_apps_def emit_def split: option.splits reply.splits)

lemma perform_no_client:
  "client (remote w) = None \<Longrightarrow> perform dev x w = (Returned (idle_result x), w)"
  by (cases x) (simp_all add: button_defs guarded_no_client mute_toggle_def get_apps_def)

lemma perform_client:
  "client (remote w) = Some c \<Longrightarrow>
   \<exists>rq rest. events (snd (perform dev x w)) = events w @ Dev rq # rest"
  by (cases x)
     (simp_all add: button_defs guarded_client command_events mute_toggle_events get_apps_events
        split: reply.splits)

lemma perform_remote: "remote (snd (perform dev x w)) = remote w"
  by (cases x) (simp_all add: button_defs guarded_remote mute_toggle_remote get_apps_remote)

subsection \<open>A connected session has a client\<close>

lemma session_ok_init: "session_ok \<lparr>remote = LGTVRemote_init, events = []\<rparr>"
  by (simp add: session_ok_def LGTVRemote_init_def)

lemma session_ok_connect: "session_ok (snd (connect_to_tv dev ip ck w))"
  by (cases "on_connect dev (events w) ip ck")
     (simp_all add: session_ok_def connect_to_tv_def emit_def)

lemma session_ok_perform: "session_ok w \<Longrightarrow> session_ok (snd (perform dev x w))"
  by (simp add: session_ok_def perform_remote)

lemma session_ok_disconnect: "session_ok w \<Longrightarrow> session_ok (snd (disconnect dev w))"
  by (auto simp: session_ok_def disconnect_def command_def emit_def
      split: option.splits reply.splits)

subsection \<open>The guard of the operations\<close>

text \<open>
  C1, as the code has it. An operation of a session without a client object returns at
  once, with \<^verbatim>\<open>None\<close> (\<^verbatim>\<open>[]\<close> for the app list), raises nothing and leaves the
  session and the log as they were. An operation of a session with a client object sends
  a request to the device, whatever the \<^verbatim>\<open>connected\<close> flag says.
\<close>

theorem operation_io_iff_client:
  "(client (remote w) = None \<longrightarrow> perform dev x w = (Returned (idle_result x), w)) \<and>
   (client (remote w) \<noteq> None \<longrightarrow>
      (\<exists>rq rest. events (snd (perform dev x w)) = events w @ Dev rq # rest))"
  using perform_no_client perform_client by blast

theorem operation_io_iff_client_witness:
  "perform (test_tv NoReply (Reply ()) []) OpGetApps fresh = (Returned (VApps []), fresh) \<and>
   (\<exists>rq rest.
      events (snd (perform (test_tv NoReply (Reply ()) []) OpMuteToggle
        (snd (connect_to_tv (test_tv NoReply (Reply ()) []) ''10.0.0.2'' None fresh)))) =
      events (snd (connect_to_tv (test_tv NoReply (Reply ()) []) ''10.0.0.2'' None fresh)) @
        Dev rq # rest)"
  using operation_io_iff_client [of fresh "test_tv NoReply (Reply ()) []" OpGetApps]
    operation_io_iff_client
      [of "snd (connect_to_tv (test_tv NoReply (Reply ()) []) ''10.0.0.2'' None fresh)"
          "test_tv NoReply (Reply ()) []" OpMuteToggle]
  by (simp add: fresh_def LGTVRemote_init_def connect_to_tv_def test_tv_def emit_def)

text \<open>
  C1 as it is written fails twice. On a new session \<^verbatim>\<open>volume_up\<close> returns
  \<^verbatim>\<open>None\<close> and raises no error. After a connection that the device refused the
  session is not connected, and \<^verbatim>\<open>volume_up\<close> sends its request all the same.
\<close>

theorem not_connected_counterexample:
  "perform (test_tv (Raises ''unreachable'') (Reply ()) []) OpVolumeUp fresh =
     (Returned VNone, fresh) \<and>
   (let w1 = snd (connect_to_tv (test_tv (Raises ''unreachable'') (Reply ()) [])
                    ''10.0.0.2'' None fresh)
    in \<not> connected (remote w1) \<and>
       events (snd (perform (test_tv (Raises ''unreachable'') (Reply ()) []) OpVolumeUp w1)) =
         [Dev (Connect ''10.0.0.2'' None), Dev VolumeUp])"
  by (simp add: fresh_def LGTVRemote_init_def connect_to_tv_def test_tv_def emit_def
      volume_up_def guarded_def command_def)

subsection \<open>Toggling the sound\<close>

text \<open>
  C7, as the code has it. On a connected session \<^verbatim>\<open>mute_toggle\<close> asks the device
  for the mute state first. When the device answers, the second and last request sets the
  inverse of the answer. When the read raises or is not answered, the read is the only
  request.
\<close>

theorem mute_toggle_read_then_set:
  assumes "session_ok w" and "connected (remote w)"
  shows "events (snd (mute_toggle dev w)) =
           events w @ (case on_get_muted dev (events w) of
                         Reply m \<Rightarrow> [Dev GetMuted, Dev (SetMute (\<not> m))]
                       | Raises e \<Rightarrow> [Dev GetMuted]
                       | NoReply \<Rightarrow> [Dev GetMuted])"
proof -
  from assms obtain c where "client (remote w) = Some c"
    by (auto simp: session_ok_def)
  then show ?thesis by (rule mute_toggle_events)
qed

theorem mute_toggle_read_then_set_witness:
  "events (snd (mute_toggle (test_tv NoReply (Reply ()) []) paired)) =
     events paired @ [Dev GetMuted, Dev (SetMute True)]"
  using mute_toggle_read_then_set [of paired "test_tv NoReply (Reply ()) []"]
  by (simp add: eval_defs session_ok_def)

text \<open>
  C7 as it is written fails when the read fails: on a connected session whose device
  resets the connection, \<^verbatim>\<open>mute_toggle\<close> makes one request and raises.
\<close>

theorem mute_toggle_counterexample:
  "connected (remote paired) \<and>
   mute_toggle (test_tv NoReply (Raises ''connection reset'') []) paired =
     (Raised ''connection reset'',
      paired\<lparr>events := [Dev (Connect ''192.168.1.100'' None), Dev GetMuted]\<rparr>)"
  by (simp add: eval_defs mute_toggle_def)

subsection \<open>A connection that fails\<close>

text \<open>
  C10, as the code has it. \<^verbatim>\<open>connect_to_tv\<close> stores the new client before it waits
  for the connection. When the connection fails, by an exception or by no answer, the call
  does not return \<^verbatim>\<open>True\<close>, the session holds the new client, the
  \<^verbatim>\<open>connected\<close> flag keeps the value it had (false on a session that was never
  connected), and every operation that follows sends a request to the device.
\<close>

theorem failed_connect_keeps_client:
  assumes "\<forall>k. on_connect dev (events w) ip ck \<noteq> Reply k"
    and "w1 = snd (connect_to_tv dev ip ck w)"
  shows "fst (connect_to_tv dev ip ck w) \<noteq> Returned (VBool True) \<and>
         client (remote w1) = Some \<lparr>wc_host = ip, wc_client_key = ck\<rparr> \<and>
         connected (remote w1) = connected (remote w) \<and>
         (\<forall>x. \<exists>rq rest. events (snd (perform dev x w1)) = events w1 @ Dev rq # rest)"
proof -
  have c: "client (remote w1) = Some \<lparr>wc_host = ip, wc_client_key = ck\<rparr>"
    using assms
    by (cases "on_connect dev (events w) ip ck") (simp_all add: connect_to_tv_def emit_def)
  have "fst (connect_to_tv dev ip ck w) \<noteq> Returned (VBool True)"
    using assms
    by (cases "on_connect dev (events w) ip ck") (simp_all add: connect_to_tv_def emit_def)
  moreover have "connected (remote w1) = connected (remote w)"
    using assms
    by (cases "on_connect dev (events w) ip ck") (simp_all add: connect_to_tv_def emit_def)
  moreover have "\<forall>x. \<exists>rq rest. events (snd (perform dev x w1)) = events w1 @ Dev rq # rest"
    using perform_client [OF c] by blast
  ultimately show ?thesis using c by blast
qed

theorem failed_connect_keeps_client_witness:
  "client (remote (snd (connect_to_tv (test_tv (Raises ''unreachable'') (Reply ()) [])
                          ''10.0.0.2'' None fresh))) =
     Some \<lparr>wc_host = ''10.0.0.2'', wc_client_key = None\<rparr> \<and>
   \<not> connected (remote (snd (connect_to_tv (test_tv (Raises ''unreachable'') (Reply ()) [])
                                ''10.0.0.2'' None fresh))) \<and>
   (\<forall>x. \<exists>rq rest.
      events (snd (perform (test_tv (Raises ''unreachable'') (Reply ()) []) x
        (snd (connect_to_tv (test_tv (Raises ''unreachable'') (Reply ()) [])
                ''10.0.0.2'' None fresh)))) =
      events (snd (connect_to_tv (test_tv (Raises ''unreachable'') (Reply ()) [])
                     ''10.0.0.2'' None fresh)) @ Dev rq # rest)"
proof -
  have 1: "\<forall>k. on_connect (test_tv (Raises ''unreachable'') (Reply ()) []) (events fresh)
                  ''10.0.0.2'' None \<noteq> Reply k"
    by (simp add: test_tv_def)
  have 2: "connected (remote fresh) = False"
    by (simp add: fresh_def LGTVRemote_init_def)
  from failed_connect_keeps_client [OF 1 refl] 2 show ?thesis by simp
qed

text \<open>
  C10 as it is written fails on a session that was connected before: the first connection
  succeeds, the second one is refused and returns \<^verbatim>\<open>False\<close>, and the
  \<^verbatim>\<open>connected\<close> flag is still set.
\<close>

theorem failed_reconnect_counterexample:
  "(let w1 = snd (connect_to_tv flaky_tv ''10.0.0.2'' None fresh);
        r2 = connect_to_tv flaky_tv ''10.0.0.2'' (Some ''KEY'') w1
    in fst r2 = Returned (VBool False) \<and> connected (remote (snd r2)) \<and>
       client (remote (snd r2)) = Some \<lparr>wc_host = ''10.0.0.2'', wc_client_key = Some ''KEY''\<rparr>)"
  by (simp add: eval_defs)

section \<open>Running a coroutine from the front end\<close>

text \<open>
  C5, as the code has it. When the wait for a command runs out, \<^verbatim>\<open>run_async\<close>
  returns \<^verbatim>\<open>None\<close>, the value it also returns when the command raised, after it
  has written \<^verbatim>\<open>Error: \<close> and the text of the exception to the status bar; the
  text of the timeout is empty. The command has run once: the world is the one that a
  single run of the coroutine leaves.
\<close>

theorem timeout_and_error_return_none:
  assumes "loop g" and "coro w = (out, w1)" and "out = Pending \<or> out = Raised e"
  shows "run_async coro (g, w) =
           (VNone, update_status (''Error: '' @ (if out = Pending then [] else e)) g, w1)"
  using assms by (auto simp: run_async_def loop_def)

theorem timeout_and_error_return_none_witness:
  "run_async (volume_up (test_tv NoReply NoReply [])) (ready, paired) =
     (VNone, update_status ''Error: '' ready, emit VolumeUp paired) \<and>
   run_async (volume_up (test_tv NoReply (Raises ''connection reset'') [])) (ready, paired) =
     (VNone, update_status ''Error: connection reset'' ready, emit VolumeUp paired)"
  using timeout_and_error_return_none
      [of ready "volume_up (test_tv NoReply NoReply [])" paired Pending "emit VolumeUp paired" "[]"]
    timeout_and_error_return_none
      [of ready "volume_up (test_tv NoReply (Raises ''connection reset'') [])" paired
          "Raised ''connection reset''" "emit VolumeUp paired" "''connection reset''"]
  by (simp add: eval_defs volume_up_def)

text \<open>
  C5 as it is written fails: a command that is not answered in time and a command whose
  device error has an empty text leave the caller with the same value and the same status
  bar, and with any other text the value returned is still the same \<^verbatim>\<open>None\<close>.
\<close>

theorem timeout_distinct_counterexample:
  "run_async (volume_up (test_tv NoReply NoReply [])) (ready, paired) =
     run_async (volume_up (test_tv NoReply (Raises []) [])) (ready, paired) \<and>
   fst (run_async (volume_up (test_tv NoReply NoReply [])) (ready, paired)) =
     fst (run_async (volume_up (test_tv NoReply (Raises ''connection reset'') [])) (ready, paired))"
  by (simp add: eval_defs volume_up_def)

subsection \<open>Errors and the worker\<close>




text \<open>
  A coroutine that raises \<^verbatim>\<open>SystemExit\<close> does stop the worker: the caller's wait runs
  out, and a command submitted afterwards is not run.
\<close>

lemma aborted_stops_worker:
  assumes "loop g" and "coro w = (Aborted e, w1)"
  shows "\<exists>g1. run_async coro (g, w) = (VNone, g1, w1) \<and> \<not> loop g1 \<and>
           run_async next (g1, w1) = (VNone, update_status ''Error: '' g1, w1)"
  using assms by (simp add: run_async_def loop_def update_status_def)




section \<open>Launching by name\<close>

lemma run_async_launch:
  assumes "loop g" and "client (remote w) = Some c"
  shows "\<exists>v g1 w1. run_async (launch_app dev i) (g, w) = (v, g1, w1) \<and> loop g1 \<and>
           remote w1 = remote w \<and> events w1 = events w @ [Dev (LaunchApp i)]"
  using assms
  by (simp add: run_async_def loop_def launch_app_def guarded_def command_def emit_def
      update_status_def split: reply.splits)

lemma run_async_get_apps:
  assumes "loop g" and "client (remote w) = Some c"
  shows "\<exists>g1. run_async (get_apps dev) (g, w) =
           ((case on_get_apps dev (events w) of
               Reply apps \<Rightarrow> VApps apps | Raises e \<Rightarrow> VNone | NoReply \<Rightarrow> VNone),
            g1, emit GetApps w) \<and> loop g1"
  using assms
  by (simp add: run_async_def loop_def get_apps_def update_status_def split: reply.splits)

lemma try_fallbacks_events:
  "loop g \<Longrightarrow> client (remote w) = Some c \<Longrightarrow>
   events (snd (try_fallbacks dev app_name ids (g, w))) =
     events w @ concat (map (\<lambda>app_id. [Dev (LaunchApp app_id), Sleep 500]) ids)"
proof (induction ids arbitrary: g w)
  case Nil
  then show ?case by simp
next
  case (Cons i ids)
  from run_async_launch [OF Cons.prems, of dev i]
  obtain v g1 w1 where r: "run_async (launch_app dev i) (g, w) = (v, g1, w1)"
    and l: "loop g1" and rm: "remote w1 = remote w"
    and ev: "events w1 = events w @ [Dev (LaunchApp i)]"
    by blast
  let ?g2 = "update_status (''Trying '' @ app_name @ '' with ID: '' @ i) g1"
  let ?w2 = "w1\<lparr>events := events w1 @ [Sleep 500]\<rparr>"
  have "loop ?g2" using l by (simp add: update_status_def loop_def)
  moreover have "client (remote ?w2) = Some c" using rm Cons.prems by simp
  ultimately have "events (snd (try_fallbacks dev app_name ids (?g2, ?w2))) =
     events ?w2 @ concat (map (\<lambda>app_id. [Dev (LaunchApp app_id), Sleep 500]) ids)"
    by (rule Cons.IH)
  then show ?case using r ev by simp
qed

lemma search_apps_none:
  "find (name_matches app_name) apps = None \<Longrightarrow> search_apps dev app_name apps gw = None"
  by (induction apps) (simp_all split: if_splits)

lemma search_apps_some:
  "find (name_matches app_name) apps = Some a \<Longrightarrow>
   search_apps dev app_name apps gw =
     Some (case run_async (launch_app dev (dict_get a ''id'' [])) gw of
             (v, g1, w1) \<Rightarrow>
               (update_status (''Found and launching '' @ app_name @ '': '' @ dict_get a ''id'' []) g1,
                w1))"
proof (induction apps)
  case Nil
  then show ?case by simp
next
  case (Cons b apps)
  show ?case
  proof (cases "name_matches app_name b")
    case True
    then have "a = b" using Cons.prems by simp
    then show ?thesis using True by (simp add: Let_def split: prod.splits)
  next
    case False
    then show ?thesis using Cons by simp
  qed
qed

lemma fallback_events:
  assumes "loop g" and "client (remote w) = Some c"
    and "\<forall>catalog. on_get_apps dev (events w) = Reply catalog \<longrightarrow>
           find (spec_entry_matches app_name) catalog = None"
  shows "events (snd (launch_app_smart dev app_name (g, w))) =
           events w @ Dev GetApps #
             (case map_of fallback_ids app_name of
                Some ids \<Rightarrow> concat (map (\<lambda>app_id. [Dev (LaunchApp app_id), Sleep 500]) ids)
              | None \<Rightarrow> [])"
proof -
  from run_async_get_apps [OF assms(1,2), of dev]
  obtain g1 where r: "run_async (get_apps dev) (g, w) =
           ((case on_get_apps dev (events w) of
               Reply apps \<Rightarrow> VApps apps | Raises e \<Rightarrow> VNone | NoReply \<Rightarrow> VNone),
            g1, emit GetApps w)"
    and l: "loop g1"
    by blast
  have c1: "client (remote (emit GetApps w)) = Some c"
    using assms(2) by (simp add: emit_def)
  have fb: "events (snd (case map_of fallback_ids app_name of
                 Some ids \<Rightarrow> try_fallbacks dev app_name ids (g1, emit GetApps w)
               | None \<Rightarrow> (update_status (''Could not find '' @ app_name) g1, emit GetApps w))) =
        events w @ Dev GetApps #
             (case map_of fallback_ids app_name of
                Some ids \<Rightarrow> concat (map (\<lambda>app_id. [Dev (LaunchApp app_id), Sleep 500]) ids)
              | None \<Rightarrow> [])"
    using try_fallbacks_events [OF l c1, of dev app_name]
    by (simp add: emit_def split: option.splits)
  show ?thesis
  proof (cases "on_get_apps dev (events w)")
    case (Reply catalog)
    then have "find (name_matches app_name) catalog = None"
      using assms(3) name_matches_spec [abs_def] by simp
    then have "search_apps dev app_name catalog (g1, emit GetApps w) = None"
      by (rule search_apps_none)
    then show ?thesis using r Reply fb by (simp add: launch_app_smart_def Let_def)
  next
    case (Raises e)
    then show ?thesis using r fb by (simp add: launch_app_smart_def Let_def)
  next
    case NoReply
    then show ?thesis using r fb by (simp add: launch_app_smart_def Let_def)
  qed
qed

subsection \<open>The app list of the device comes first\<close>

text \<open>
  C3. When the device has returned its app list, the entries are tried in the order of the
  list; an entry matches when the lower-cased requested name is a substring of its
  lower-cased title or the lower-cased title is a substring of the lower-cased name. The
  identifier of the first entry that matches is launched, once, and nothing else is: the
  requests the launcher makes are the reading of the list and this one launch, also for a
  name that the table of fallbacks knows.
\<close>

theorem catalog_first_match_launched:
  assumes "loop g" and "client (remote w) = Some c"
    and "on_get_apps dev (events w) = Reply catalog"
    and "find (spec_entry_matches app_name) catalog = Some entry"
  shows "events (snd (launch_app_smart dev app_name (g, w))) =
           events w @ [Dev GetApps, Dev (LaunchApp (dict_get entry ''id'' []))]"
proof -
  from run_async_get_apps [OF assms(1,2), of dev] assms(3)
  obtain g1 where r: "run_async (get_apps dev) (g, w) = (VApps catalog, g1, emit GetApps w)"
    and l: "loop g1"
    by auto
  have f: "find (name_matches app_name) catalog = Some entry"
    using assms(4) name_matches_spec [abs_def] by simp
  have ne: "catalog \<noteq> []" using f by auto
  have c1: "client (remote (emit GetApps w)) = Some c"
    using assms(2) by (simp add: emit_def)
  from run_async_launch [OF l c1, of dev "dict_get entry ''id'' []"]
  obtain v g2 w2
    where r2: "run_async (launch_app dev (dict_get entry ''id'' [])) (g1, emit GetApps w) = (v, g2, w2)"
      and ev: "events w2 = events (emit GetApps w) @ [Dev (LaunchApp (dict_get entry ''id'' []))]"
    by blast
  show ?thesis
    using r ne ev r2 search_apps_some [OF f, of dev "(g1, emit GetApps w)"]
    by (simp add: launch_app_smart_def emit_def)
qed

text \<open>
  Three catalogs for the theorem. In the first the entry before the match does not match
  and the entry after it does; name and title differ in case. In the second the title is
  the shorter string, and the table of fallbacks has the name. In the third the capital
  letter is an accented one, 201, whose lower-case letter is 233.
\<close>

theorem catalog_first_match_launched_witness:
  "events (snd (launch_app_smart
       (test_tv NoReply (Reply ())
          [[''id'' \<mapsto> ''hulu'', ''title'' \<mapsto> ''Hulu''],
           [''id'' \<mapsto> ''n1'', ''title'' \<mapsto> ''NETFLIX Premium''],
           [''id'' \<mapsto> ''n2'', ''title'' \<mapsto> ''Netflix'']])
       ''NetFlix'' (ready, paired))) =
     events paired @ [Dev GetApps, Dev (LaunchApp ''n1'')] \<and>
   events (snd (launch_app_smart
       (test_tv NoReply (Reply ())
          [[''id'' \<mapsto> ''com.disney'', ''title'' \<mapsto> ''Disney+''],
           [''id'' \<mapsto> ''x'', ''title'' \<mapsto> ''PRIME''],
           [''id'' \<mapsto> ''amazon'', ''title'' \<mapsto> ''Amazon Prime Video'']])
       ''Prime Video'' (ready, paired))) =
     events paired @ [Dev GetApps, Dev (LaunchApp ''x'')] \<and>
   events (snd (launch_app_smart
       (test_tv NoReply (Reply ())
          [[''id'' \<mapsto> ''cafe'', ''title'' \<mapsto> ''caf'' @ [CHR 0xE9] @ '' tv'']])
       (''CAF'' @ [CHR 0xC9]) (ready, paired))) =
     events paired @ [Dev GetApps, Dev (LaunchApp ''cafe'')]"
proof -
  let ?c = "\<lparr>wc_host = ''192.168.1.100'', wc_client_key = Some ''KEY''\<rparr>"
  let ?c1 = "[[''id'' \<mapsto> ''hulu'', ''title'' \<mapsto> ''Hulu''],
              [''id'' \<mapsto> ''n1'', ''title'' \<mapsto> ''NETFLIX Premium''],
              [''id'' \<mapsto> ''n2'', ''title'' \<mapsto> ''Netflix'']]"
  let ?c2 = "[[''id'' \<mapsto> ''com.disney'', ''title'' \<mapsto> ''Disney+''],
              [''id'' \<mapsto> ''x'', ''title'' \<mapsto> ''PRIME''],
              [''id'' \<mapsto> ''amazon'', ''title'' \<mapsto> ''Amazon Prime Video'']]"
  let ?c3 = "[[''id'' \<mapsto> ''cafe'', ''title'' \<mapsto> ''caf'' @ [CHR 0xE9] @ '' tv'']]"
  have l: "loop ready" by (simp add: eval_defs)
  have c: "client (remote paired) = Some ?c" by (simp add: eval_defs)
  have a1: "on_get_apps (test_tv NoReply (Reply ()) ?c1) (events paired) = Reply ?c1"
    by (simp add: test_tv_def)
  have a2: "on_get_apps (test_tv NoReply (Reply ()) ?c2) (events paired) = Reply ?c2"
    by (simp add: test_tv_def)
  have a3: "on_get_apps (test_tv NoReply (Reply ()) ?c3) (events paired) = Reply ?c3"
    by (simp add: test_tv_def)
  have f1: "find (spec_entry_matches ''NetFlix'') ?c1 =
              Some [''id'' \<mapsto> ''n1'', ''title'' \<mapsto> ''NETFLIX Premium'']"
    by (simp add: eval_defs py_in_sublist [symmetric])
  have f2: "find (spec_entry_matches ''Prime Video'') ?c2 =
              Some [''id'' \<mapsto> ''x'', ''title'' \<mapsto> ''PRIME'']"
    by (simp add: eval_defs py_in_sublist [symmetric])
  have f3: "find (spec_entry_matches (''CAF'' @ [CHR 0xC9])) ?c3 =
              Some [''id'' \<mapsto> ''cafe'', ''title'' \<mapsto> ''caf'' @ [CHR 0xE9] @ '' tv'']"
    by (simp add: eval_defs py_in_sublist [symmetric])
  from catalog_first_match_launched [OF l c a1 f1]
    catalog_first_match_launched [OF l c a2 f2]
    catalog_first_match_launched [OF l c a3 f3]
  show ?thesis by (simp add: dict_get_def)
qed

subsection \<open>The table of fallbacks\<close>

text \<open>
  C4. When the device returned no app list, or a list without a matching entry, the name
  is looked up in the table of fallbacks as it is written. The identifiers launched are
  the ones the table has for the name, all of them and in the table's order, and none when
  the table does not have the name. For \<^verbatim>\<open>ESPN\<close> the table has \<^verbatim>\<open>espn\<close>,
  \<^verbatim>\<open>com.espn.webostv\<close> and \<^verbatim>\<open>com.espn.app\<close>.
\<close>

theorem alias_table_candidates:
  assumes "loop g" and "client (remote w) = Some c"
    and "\<forall>catalog. on_get_apps dev (events w) = Reply catalog \<longrightarrow>
           find (spec_entry_matches app_name) catalog = None"
  shows "launches (drop (length (events w)) (events (snd (launch_app_smart dev app_name (g, w))))) =
           (case map_of fallback_ids app_name of Some ids \<Rightarrow> ids | None \<Rightarrow> []) \<and>
         map_of fallback_ids ''ESPN'' = Some [''espn'', ''com.espn.webostv'', ''com.espn.app'']"
  using fallback_events [OF assms] launches_attempts
  by (simp add: fallback_ids_def split: option.splits)

theorem alias_table_candidates_witness:
  "launches (drop (length (events paired))
      (events (snd (launch_app_smart
        (test_tv NoReply (Reply ()) [[''id'' \<mapsto> ''netflix'', ''title'' \<mapsto> ''Netflix'']])
        ''ESPN'' (ready, paired))))) =
     [''espn'', ''com.espn.webostv'', ''com.espn.app''] \<and>
   launches (drop (length (events paired))
      (events (snd (launch_app_smart (test_tv NoReply (Reply ()) []) ''espn'' (ready, paired))))) = []"
  using alias_table_candidates
      [of ready paired "\<lparr>wc_host = ''192.168.1.100'', wc_client_key = Some ''KEY''\<rparr>"
          "test_tv NoReply (Reply ()) [[''id'' \<mapsto> ''netflix'', ''title'' \<mapsto> ''Netflix'']]" "''ESPN''"]
    alias_table_candidates
      [of ready paired "\<lparr>wc_host = ''192.168.1.100'', wc_client_key = Some ''KEY''\<rparr>"
          "test_tv NoReply (Reply ()) []" "''espn''"]
  by (simp add: eval_defs py_in_sublist [symmetric])

text \<open>
  C2, as the code has it. For a name that the app list does not match and the table of
  fallbacks has, the launcher sends a launch request for every identifier of the table's
  entry, in the entry's order, and pauses half a second after each request. It goes on to
  the next identifier whether the request was accepted, raised or was not answered.
\<close>

theorem fallback_tries_every_candidate:
  assumes "loop g" and "client (remote w) = Some c"
    and "\<forall>catalog. on_get_apps dev (events w) = Reply catalog \<longrightarrow>
           find (spec_entry_matches app_name) catalog = None"
    and "map_of fallback_ids app_name = Some ids"
  shows "events (snd (launch_app_smart dev app_name (g, w))) =
           events w @ Dev GetApps #
             concat (map (\<lambda>app_id. [Dev (LaunchApp app_id), Sleep 500]) ids)"
  using fallback_events [OF assms(1,2,3)] assms(4) by simp

theorem fallback_tries_every_candidate_witness:
  "events (snd (launch_app_smart (test_tv NoReply (Raises ''no such app'') []) ''YouTube''
                  (ready, paired))) =
     events paired @
       [Dev GetApps, Dev (LaunchApp ''youtube.leanback.v4''), Sleep 500,
        Dev (LaunchApp ''youtube''), Sleep 500]"
  using fallback_tries_every_candidate
      [of ready paired "\<lparr>wc_host = ''192.168.1.100'', wc_client_key = Some ''KEY''\<rparr>"
          "test_tv NoReply (Raises ''no such app'') []" "''YouTube''"
          "[''youtube.leanback.v4'', ''youtube'']"]
  by (simp add: eval_defs)

text \<open>
  C2 as it is written fails: the device accepts the first launch request for
  \<^verbatim>\<open>ESPN\<close>, and the launcher sends the second and the third all the same.
\<close>

theorem fallback_stop_counterexample:
  "events (snd (launch_app_smart (test_tv NoReply (Reply ()) []) ''ESPN'' (ready, paired))) =
     [Dev (Connect ''192.168.1.100'' None), Dev GetApps,
      Dev (LaunchApp ''espn''), Sleep 500,
      Dev (LaunchApp ''com.espn.webostv''), Sleep 500,
      Dev (LaunchApp ''com.espn.app''), Sleep 500]"
  by (simp add: eval_defs)

section \<open>The pairing key\<close>

text \<open>
  No handler but \<^verbatim>\<open>load_config\<close> assigns \<^verbatim>\<open>saved_client_key\<close>: a connection,
  accepted or not, leaves it as it was.
\<close>

lemma run_async_saved_key:
  "run_async coro (g, w) = (v, g1, w1) \<Longrightarrow> saved_client_key g1 = saved_client_key g"
  by (auto simp: run_async_def update_status_def
      split: prod.splits outcome.splits option.splits event_loop.splits)

lemma refresh_apps_saved_key:
  "refresh_apps dev (g, w) = (g1, w1) \<Longrightarrow> saved_client_key g1 = saved_client_key g"
proof -
  assume a: "refresh_apps dev (g, w) = (g1, w1)"
  obtain apps g2 w2 where r: "run_async (get_apps dev) (g, w) = (apps, g2, w2)"
    by (cases "run_async (get_apps dev) (g, w)") auto
  have "saved_client_key g2 = saved_client_key g"
    using r by (rule run_async_saved_key)
  then show ?thesis
    using a r by (auto simp: refresh_apps_def update_status_def split: if_splits sum.splits)
qed

lemma connect_tv_saved_key:
  assumes "connect_tv dev (g, w) = (g', w')"
  shows "saved_client_key g' = saved_client_key g"
proof (cases "strip (ip_entry g) = []")
  case True
  then show ?thesis using assms by (auto simp: connect_tv_def)
next
  case False
  let ?ip = "strip (ip_entry g)"
  let ?g1 = "(update_status ''Connecting...'' g)\<lparr>connect_btn := False\<rparr>"
  obtain success g2 w2
    where r: "run_async (connect_to_tv dev ?ip (saved_client_key ?g1)) (?g1, w) = (success, g2, w2)"
    by (cases "run_async (connect_to_tv dev ?ip (saved_client_key ?g1)) (?g1, w)") auto
  have k2: "saved_client_key g2 = saved_client_key g"
    using run_async_saved_key [OF r] by (simp add: update_status_def)
  show ?thesis
  proof (cases "truthy success")
    case True
    let ?g3 = "fst (save_config (update_status ''Connected successfully''
                       (g2\<lparr>status_label := ''Connected to '' @ ?ip\<rparr>), w2))"
    obtain g4 w4 where rr: "refresh_apps dev (?g3, w2) = (g4, w4)"
      by (cases "refresh_apps dev (?g3, w2)") auto
    have "saved_client_key g4 = saved_client_key ?g3"
      using rr by (rule refresh_apps_saved_key)
    then have "saved_client_key g4 = saved_client_key g"
      using k2 by (simp add: save_config_def update_status_def)
    moreover have "g' = g4\<lparr>connect_btn := True\<rparr>"
      using assms False True r rr by (simp add: connect_tv_def Let_def save_config_def)
    ultimately show ?thesis by simp
  next
    case nt: False
    have "g' = (update_status ''Connection failed''
                 (g2\<lparr>status_label := ''Connection Failed''\<rparr>))\<lparr>connect_btn := True\<rparr>"
      using assms False nt r by (simp add: connect_tv_def Let_def)
    then show ?thesis using k2 by (simp add: update_status_def)
  qed
qed

text \<open>
  C8, at a start without a configuration file and a device that pairs with the key
  \<^verbatim>\<open>KEY\<close>: after the first \<^verbatim>\<open>connect_tv\<close> the key is in the remote and in the
  file, and the second \<^verbatim>\<open>connect_tv\<close> connects without a key, since
  \<^verbatim>\<open>saved_client_key\<close> still has what \<^verbatim>\<open>load_config\<close> found at the start.
\<close>

theorem reconnect_without_key:
  "(case connect_tv (test_tv (Reply (Some ''KEY'')) (Reply ()) [])
          (connect_tv (test_tv (Reply (Some ''KEY'')) (Reply ()) []) (TVRemoteGUI_init None)) of
      (g, w) \<Rightarrow>
        events w =
          [Dev (Connect ''192.168.1.100'' None), Dev GetApps,
           Dev (Connect ''192.168.1.100'' None), Dev GetApps] \<and>
        client_key (remote w) = Some ''KEY'' \<and>
        config_file g = Some \<lparr>cfg_tv_ip = Some ''192.168.1.100'', cfg_client_key = Some ''KEY''\<rparr> \<and>
        saved_client_key g = None)"
  by (simp add: eval_defs connect_tv_def strip_def is_space_def save_config_def refresh_apps_def
      get_client_key_def)

section \<open>The double click on the app list\<close>

text \<open>
  C9. An object of \<^verbatim>\<open>TVRemoteGUI\<close> has no attribute \<^verbatim>\<open>launch_app\<close>. A double
  click with a selected line raises the \<^verbatim>\<open>AttributeError\<close> and leaves the state
  and the log of the device as they are; without a selected line the handler returns and
  does nothing.
\<close>

theorem double_click_raises:
  "''launch_app'' \<notin> set (TVRemoteGUI_attributes @ TVRemoteGUI_methods) \<and>
   launch_selected_app dev selection gw =
     (if selection = [] then (Returned VNone, gw)
      else (Raised (no_attribute ''launch_app''), gw))"
  by (simp add: launch_selected_app_def call_self_def TVRemoteGUI_attributes_def
      TVRemoteGUI_methods_def split: list.splits)

end
